theory Spec2Isabelle
  imports Main "HOL-Library.Word"
begin

section \<open>A reference-counting smart pointer (smart\_pointer.hpp)\<close>

text \<open>
  The header declares two classes. \<open>PtrCounter\<close> wraps one \<open>unsigned int\<close>;
  \<open>SmartPointer<Type>\<close> holds a raw pointer to the resource and a raw pointer to a
  heap-allocated \<open>PtrCounter\<close> that every copy of the handle shares.

  The embedding keeps the two levels apart. The member functions of \<open>PtrCounter\<close> are
  pure functions on a one-field record over \<open>32 word\<close>, so that \<open>++\<close> and \<open>--\<close> wrap
  as \<open>unsigned int\<close> does. The member functions of \<open>SmartPointer\<close> mutate objects
  reached through pointers that other handles may hold too, so they run over an explicit
  heap: the handle is passed and returned by value, the counter objects live in the heap
  and are addressed by number.
\<close>

subsection \<open>PtrCounter\<close>

text \<open>\<open>unsigned int\<close> is taken to be 32 bits wide.\<close>

type_synonym u32 = "32 word"

record PtrCounter =
  m_counter :: u32

text \<open>\<open>PtrCounter() : m_counter(0)\<close>\<close>

definition PtrCounter_ctor :: PtrCounter where
  "PtrCounter_ctor = \<lparr>m_counter = 0\<rparr>"

text \<open>\<open>void reset() { m_counter = 0; }\<close>\<close>

definition reset :: "PtrCounter \<Rightarrow> PtrCounter" where
  "reset k = k\<lparr>m_counter := 0\<rparr>"

text \<open>\<open>unsigned int get() { return m_counter; }\<close>\<close>

definition get :: "PtrCounter \<Rightarrow> u32" where
  "get k = m_counter k"

text \<open>
  \<open>operator++()\<close> and \<open>operator++(int)\<close> have the same body, \<open>m_counter++\<close>, and
  return nothing; so have \<open>operator--()\<close> and \<open>operator--(int)\<close> with \<open>m_counter--\<close>.
  One function stands for each pair.
\<close>

definition op_inc :: "PtrCounter \<Rightarrow> PtrCounter" where
  "op_inc k = k\<lparr>m_counter := m_counter k + 1\<rparr>"

definition op_dec :: "PtrCounter \<Rightarrow> PtrCounter" where
  "op_dec k = k\<lparr>m_counter := m_counter k - 1\<rparr>"

subsection \<open>The heap\<close>

text \<open>
  An address is the index of a cell. \<open>new PtrCounter()\<close> appends a cell, so the address
  it returns was never handed out before; \<open>delete m_counter\<close> empties the cell. A cell
  that is empty or beyond the end holds no object: reading or writing a counter through
  such a pointer is undefined behaviour in C++, and is the result \<open>None\<close> here.

  The resource is opaque to the class: the only thing it ever does with it is
  \<open>delete resource_\<close>. The heap records these calls in order. A null pointer is
  \<open>None\<close>, and \<open>delete\<close> of a null pointer does nothing. The destructor of the
  resource, which \<open>delete\<close> runs, is taken to leave the counters alone.
\<close>

type_synonym addr = nat

record heap =
  counters :: "PtrCounter option list"
  freed :: "addr list"

definition empty_heap :: heap where
  "empty_heap = \<lparr>counters = [], freed = []\<rparr>"

definition counter_at :: "heap \<Rightarrow> addr \<Rightarrow> PtrCounter option" where
  "counter_at h c = (if c < length (counters h) then counters h ! c else None)"

definition new_PtrCounter :: "heap \<Rightarrow> addr \<times> heap" where
  "new_PtrCounter h =
     (length (counters h), h\<lparr>counters := counters h @ [Some PtrCounter_ctor]\<rparr>)"

definition delete_PtrCounter :: "addr \<Rightarrow> heap \<Rightarrow> heap" where
  "delete_PtrCounter c h = h\<lparr>counters := (counters h)[c := None]\<rparr>"

definition delete_resource :: "addr option \<Rightarrow> heap \<Rightarrow> heap" where
  "delete_resource r h = (case r of None \<Rightarrow> h | Some a \<Rightarrow> h\<lparr>freed := freed h @ [a]\<rparr>)"

text \<open>\<open>(*c)++\<close>, \<open>(*c)--\<close> and \<open>c->get()\<close> through a counter pointer \<open>c\<close>.\<close>

definition counter_inc :: "addr \<Rightarrow> heap \<Rightarrow> heap option" where
  "counter_inc c h =
     (case counter_at h c of
        None \<Rightarrow> None
      | Some k \<Rightarrow> Some (h\<lparr>counters := (counters h)[c := Some (op_inc k)]\<rparr>))"

definition counter_dec :: "addr \<Rightarrow> heap \<Rightarrow> heap option" where
  "counter_dec c h =
     (case counter_at h c of
        None \<Rightarrow> None
      | Some k \<Rightarrow> Some (h\<lparr>counters := (counters h)[c := Some (op_dec k)]\<rparr>))"

definition counter_get :: "addr \<Rightarrow> heap \<Rightarrow> u32 option" where
  "counter_get c h = map_option get (counter_at h c)"

subsection \<open>SmartPointer\<close>

text \<open>
  The fields are \<open>resource_\<close> and \<open>m_counter\<close> in the source. A name cannot end
  in an underscore here, so the first is \<open>resource\<close>; the second is \<open>m_counter_ptr\<close>,
  the name \<open>m_counter\<close> being taken by the field of \<open>PtrCounter\<close>.
\<close>

record SmartPointer =
  resource :: "addr option"
  m_counter_ptr :: addr

text \<open>
  \<open>explicit SmartPointer(Type *resource = nullptr)\<close>: store the pointer, allocate a
  counter, increment it when the pointer is not null.
\<close>

definition SmartPointer_ctor :: "addr option \<Rightarrow> heap \<Rightarrow> (SmartPointer \<times> heap) option" where
  "SmartPointer_ctor r h =
     (case new_PtrCounter h of (c, h1) \<Rightarrow>
        (case (if r \<noteq> None then counter_inc c h1 else Some h1) of
           None \<Rightarrow> None
         | Some h2 \<Rightarrow> Some (\<lparr>resource = r, m_counter_ptr = c\<rparr>, h2)))"

text \<open>
  \<open>~SmartPointer()\<close>: decrement, then read the counter back; on zero delete the counter
  and then the resource.
\<close>

definition SmartPointer_dtor :: "SmartPointer \<Rightarrow> heap \<Rightarrow> heap option" where
  "SmartPointer_dtor this h =
     (case counter_dec (m_counter_ptr this) h of
        None \<Rightarrow> None
      | Some h1 \<Rightarrow>
          (case counter_get (m_counter_ptr this) h1 of
             None \<Rightarrow> None
           | Some n \<Rightarrow>
               if n = 0
               then Some (delete_resource (resource this)
                            (delete_PtrCounter (m_counter_ptr this) h1))
               else Some h1))"

text \<open>
  \<open>SmartPointer &operator=(const SmartPointer &other)\<close>. The function returns
  \<open>*this\<close>; the model returns the handle as the assignment leaves it. Past the guard
  \<open>other\<close> is another object than \<open>*this\<close> (an object equals itself in both fields),
  so the writes to the fields of \<open>*this\<close> leave \<open>other\<close> as it was passed.
\<close>

definition copy_assign ::
  "SmartPointer \<Rightarrow> SmartPointer \<Rightarrow> heap \<Rightarrow> (SmartPointer \<times> heap) option" where
  "copy_assign this other h =
     (if resource this = resource other \<and> m_counter_ptr this = m_counter_ptr other
      then Some (this, h)
      else
        (case counter_dec (m_counter_ptr this) h of
           None \<Rightarrow> None
         | Some h1 \<Rightarrow>
             (case counter_get (m_counter_ptr this) h1 of
                None \<Rightarrow> None
              | Some n \<Rightarrow>
                  let h2 = (if n = 0
                            then delete_resource (resource this)
                                   (delete_PtrCounter (m_counter_ptr this) h1)
                            else h1);
                      this' = this\<lparr>resource := resource other,
                                   m_counter_ptr := m_counter_ptr other\<rparr>
                  in (case (if resource this' \<noteq> None
                            then counter_inc (m_counter_ptr this') h2 else Some h2) of
                        None \<Rightarrow> None
                      | Some h3 \<Rightarrow> Some (this', h3)))))"

text \<open>\<open>SmartPointer &operator=(Type *other)\<close>\<close>

definition raw_assign ::
  "SmartPointer \<Rightarrow> addr option \<Rightarrow> heap \<Rightarrow> (SmartPointer \<times> heap) option" where
  "raw_assign this other h =
     (case counter_dec (m_counter_ptr this) h of
        None \<Rightarrow> None
      | Some h1 \<Rightarrow>
          (case counter_get (m_counter_ptr this) h1 of
             None \<Rightarrow> None
           | Some n \<Rightarrow>
               let h2 = (if n = 0
                         then delete_resource (resource this)
                                (delete_PtrCounter (m_counter_ptr this) h1)
                         else h1)
               in (case new_PtrCounter h2 of (c, h3) \<Rightarrow>
                     let this' = this\<lparr>resource := other, m_counter_ptr := c\<rparr>
                     in (case (if resource this' \<noteq> None
                               then counter_inc (m_counter_ptr this') h3 else Some h3) of
                           None \<Rightarrow> None
                         | Some h4 \<Rightarrow> Some (this', h4)))))"

text \<open>\<open>SmartPointer(const SmartPointer &other)\<close>: the increment has no guard.\<close>

definition copy_ctor :: "SmartPointer \<Rightarrow> heap \<Rightarrow> (SmartPointer \<times> heap) option" where
  "copy_ctor other h =
     (let this = \<lparr>resource = resource other, m_counter_ptr = m_counter_ptr other\<rparr>
      in (case counter_inc (m_counter_ptr this) h of
            None \<Rightarrow> None
          | Some h1 \<Rightarrow> Some (this, h1)))"

text \<open>\<open>Type *GetPointer() const { return resource_; }\<close>\<close>

definition GetPointer :: "SmartPointer \<Rightarrow> addr option" where
  "GetPointer this = resource this"

text \<open>
  \<open>size_t GetReferenceCount() const { return m_counter->get(); }\<close>. The conversion of
  the \<open>unsigned int\<close> to \<open>size_t\<close> keeps its value, which is what the model returns.
\<close>

definition GetReferenceCount :: "SmartPointer \<Rightarrow> heap \<Rightarrow> nat option" where
  "GetReferenceCount this h = map_option unat (counter_get (m_counter_ptr this) h)"

text \<open>\<open>void Detach() { }\<close>: the body is empty.\<close>

definition Detach :: "SmartPointer \<Rightarrow> heap \<Rightarrow> SmartPointer \<times> heap" where
  "Detach this h = (this, h)"

subsection \<open>Programs\<close>

text \<open>
  The header has no caller of its own. A program that uses the class declares handles
  and calls the member functions on them; the statements below are those calls. A world
  holds the handles that are alive, by variable, and the heap they point into:

  \<^item> \<open>Construct x r\<close> is the declaration \<open>SmartPointer<T> x(r);\<close>
  \<^item> \<open>CopyConstruct x y\<close> is the declaration \<open>SmartPointer<T> x(y);\<close>
  \<^item> \<open>CopyAssign x y\<close> is \<open>x = y;\<close> for a handle \<open>y\<close>
  \<^item> \<open>RawAssign x r\<close> is \<open>x = r;\<close> for a raw pointer \<open>r\<close>
  \<^item> \<open>Destruct x\<close> is the end of the lifetime of \<open>x\<close>
  \<^item> \<open>CallDetach x\<close> is \<open>x.Detach();\<close>

  A statement has no result when it declares a variable that is alive, uses one that is
  not, or calls a member function whose behaviour is undefined.
\<close>

type_synonym var = nat

record world =
  handles :: "var \<Rightarrow> SmartPointer option"
  mem :: heap

definition empty_world :: world where
  "empty_world = \<lparr>handles = (\<lambda>x. None), mem = empty_heap\<rparr>"

datatype stmt =
    Construct var "addr option"
  | CopyConstruct var var
  | CopyAssign var var
  | RawAssign var "addr option"
  | Destruct var
  | CallDetach var

fun exec :: "stmt \<Rightarrow> world \<Rightarrow> world option" where
  "exec (Construct x r) w =
     (case handles w x of
        Some p \<Rightarrow> None
      | None \<Rightarrow>
          (case SmartPointer_ctor r (mem w) of
             None \<Rightarrow> None
           | Some (p, h') \<Rightarrow> Some \<lparr>handles = (handles w)(x \<mapsto> p), mem = h'\<rparr>))"
| "exec (CopyConstruct x y) w =
     (case (handles w x, handles w y) of
        (None, Some q) \<Rightarrow>
          (case copy_ctor q (mem w) of
             None \<Rightarrow> None
           | Some (p, h') \<Rightarrow> Some \<lparr>handles = (handles w)(x \<mapsto> p), mem = h'\<rparr>)
      | _ \<Rightarrow> None)"
| "exec (CopyAssign x y) w =
     (case (handles w x, handles w y) of
        (Some p, Some q) \<Rightarrow>
          (case copy_assign p q (mem w) of
             None \<Rightarrow> None
           | Some (p', h') \<Rightarrow> Some \<lparr>handles = (handles w)(x \<mapsto> p'), mem = h'\<rparr>)
      | _ \<Rightarrow> None)"
| "exec (RawAssign x r) w =
     (case handles w x of
        None \<Rightarrow> None
      | Some p \<Rightarrow>
          (case raw_assign p r (mem w) of
             None \<Rightarrow> None
           | Some (p', h') \<Rightarrow> Some \<lparr>handles = (handles w)(x \<mapsto> p'), mem = h'\<rparr>))"
| "exec (Destruct x) w =
     (case handles w x of
        None \<Rightarrow> None
      | Some p \<Rightarrow>
          (case SmartPointer_dtor p (mem w) of
             None \<Rightarrow> None
           | Some h' \<Rightarrow> Some \<lparr>handles = (handles w)(x := None), mem = h'\<rparr>))"
| "exec (CallDetach x) w =
     (case handles w x of
        None \<Rightarrow> None
      | Some p \<Rightarrow>
          (case Detach p (mem w) of
             (p', h') \<Rightarrow> Some \<lparr>handles = (handles w)(x \<mapsto> p'), mem = h'\<rparr>))"

fun run :: "stmt list \<Rightarrow> world \<Rightarrow> world option" where
  "run [] w = Some w"
| "run (s # ss) w = (case exec s w of None \<Rightarrow> None | Some w' \<Rightarrow> run ss w')"

text \<open>
  Two conditions on a world: the counter of every live handle is an address that has
  been handed out, and live handles that hold the same counter hold the same resource.
\<close>

definition allocated :: "world \<Rightarrow> bool" where
  "allocated w \<longleftrightarrow>
     (\<forall>x p. handles w x = Some p \<longrightarrow> m_counter_ptr p < length (counters (mem w)))"

definition shares_resource :: "world \<Rightarrow> bool" where
  "shares_resource w \<longleftrightarrow>
     (\<forall>x y p q. handles w x = Some p \<and> handles w y = Some q \<and>
        m_counter_ptr p = m_counter_ptr q \<longrightarrow> resource p = resource q)"


section \<open>Basic facts\<close>

text \<open>The two ends of \<open>unsigned int\<close>, read as numbers.\<close>

lemma u32_unat_minus_one: "unat (- 1 :: u32) = 4294967295"
  by (simp add: unsigned_minus_1_eq_mask mask_eq_exp_minus_1)

lemma u32_uint_minus_one: "uint (- 1 :: u32) = 4294967295"
  by (simp add: unsigned_minus_1_eq_mask mask_eq_exp_minus_1)

lemma u32_unat_dec: "unat (w - 1 :: u32) = (if w = 0 then 4294967295 else unat w - 1)"
  by (simp add: unat_minus_one u32_unat_minus_one)

lemma u32_unat_inc: "unat (w + 1 :: u32) = (if unat w = 4294967295 then 0 else unat w + 1)"
proof -
  have "unat w < 2 ^ 32"
    using unsigned_less [of w] by simp
  then show ?thesis
    using unat_plus_if' [of w 1] by auto
qed

text \<open>A pointer to a live counter is the index of a cell that exists.\<close>

lemma counter_at_live_less: "counter_at h c = Some k \<Longrightarrow> c < length (counters h)"
  by (simp add: counter_at_def split: if_splits)

lemmas heap_simps =
  counter_at_def counter_dec_def counter_inc_def counter_get_def
  delete_PtrCounter_def delete_resource_def new_PtrCounter_def GetReferenceCount_def
  GetPointer_def nth_list_update nth_append Let_def

section \<open>The handles of a program\<close>

text \<open>
  What each member function returns, whenever it returns: a handle it was given, or a
  handle whose counter is the one address handed out by the call.
\<close>

lemma ctor_result:
  "SmartPointer_ctor r h = Some (p, h') \<Longrightarrow>
   p = \<lparr>resource = r, m_counter_ptr = length (counters h)\<rparr> \<and>
   length (counters h') = Suc (length (counters h))"
  by (auto simp: SmartPointer_ctor_def heap_simps split: option.splits if_splits)

lemma copy_ctor_result:
  "copy_ctor q h = Some (p, h') \<Longrightarrow> p = q \<and> length (counters h') = length (counters h)"
  by (auto simp: copy_ctor_def heap_simps split: option.splits if_splits)

lemma copy_assign_result:
  "copy_assign p q h = Some (p', h') \<Longrightarrow>
   (p' = p \<or> p' = q) \<and> length (counters h') = length (counters h)"
  by (auto simp: copy_assign_def heap_simps split: option.splits if_splits)

lemma raw_assign_result:
  "raw_assign p r h = Some (p', h') \<Longrightarrow>
   p' = \<lparr>resource = r, m_counter_ptr = length (counters h)\<rparr> \<and>
   length (counters h') = Suc (length (counters h))"
  by (auto simp: raw_assign_def heap_simps split: option.splits if_splits)

lemma dtor_result:
  "SmartPointer_dtor p h = Some h' \<Longrightarrow> length (counters h') = length (counters h)"
  by (auto simp: SmartPointer_dtor_def heap_simps split: option.splits if_splits)

text \<open>
  Both conditions on worlds are kept by every statement, so they hold in every world a
  program reaches from the empty one. In particular, two live handles of a program that
  hold the same counter hold the same resource.
\<close>

lemma invariant_update:
  assumes inv: "allocated w \<and> shares_resource w"
    and len: "length (counters (mem w)) \<le> length (counters h')"
    and new: "(\<exists>y. handles w y = Some p') \<or>
              (m_counter_ptr p' = length (counters (mem w)) \<and>
               length (counters (mem w)) < length (counters h'))"
  shows "allocated \<lparr>handles = (handles w)(x \<mapsto> p'), mem = h'\<rparr> \<and>
         shares_resource \<lparr>handles = (handles w)(x \<mapsto> p'), mem = h'\<rparr>"
proof
  from inv have old: "\<And>y q. handles w y = Some q \<Longrightarrow> m_counter_ptr q < length (counters (mem w))"
    by (simp add: allocated_def)
  from inv have sh: "\<And>y z q q'. handles w y = Some q \<Longrightarrow> handles w z = Some q' \<Longrightarrow>
      m_counter_ptr q = m_counter_ptr q' \<Longrightarrow> resource q = resource q'"
    unfolding shares_resource_def by blast
  have old': "m_counter_ptr q < length (counters h')" if "handles w y = Some q" for y q
    using old [OF that] len by (rule less_le_trans)
  have p': "m_counter_ptr p' < length (counters h')"
    using new old' by auto
  show "allocated \<lparr>handles = (handles w)(x \<mapsto> p'), mem = h'\<rparr>"
    unfolding allocated_def using old' p' by auto
  have cross: "resource q = resource p'"
    if "handles w y = Some q" "m_counter_ptr q = m_counter_ptr p'" for y q
    using new
  proof
    assume "\<exists>z. handles w z = Some p'"
    with that sh show ?thesis by blast
  next
    assume "m_counter_ptr p' = length (counters (mem w)) \<and>
            length (counters (mem w)) < length (counters h')"
    with old [OF that(1)] that(2) show ?thesis by simp
  qed
  show "shares_resource \<lparr>handles = (handles w)(x \<mapsto> p'), mem = h'\<rparr>"
    unfolding shares_resource_def
  proof (intro allI impI)
    fix a b p q
    assume h: "handles \<lparr>handles = (handles w)(x \<mapsto> p'), mem = h'\<rparr> a = Some p \<and>
      handles \<lparr>handles = (handles w)(x \<mapsto> p'), mem = h'\<rparr> b = Some q \<and>
      m_counter_ptr p = m_counter_ptr q"
    show "resource p = resource q"
    proof (cases "a = x")
      case ax: True
      show ?thesis
      proof (cases "b = x")
        case True
        with ax h show ?thesis by auto
      next
        case False
        with ax h cross [of b q] show ?thesis by auto
      qed
    next
      case ax: False
      show ?thesis
      proof (cases "b = x")
        case True
        with ax h cross [of a p] show ?thesis by auto
      next
        case False
        with ax h sh [of a p b q] show ?thesis by auto
      qed
    qed
  qed
qed

lemma invariant_remove:
  assumes inv: "allocated w \<and> shares_resource w"
    and len: "length (counters (mem w)) \<le> length (counters h')"
  shows "allocated \<lparr>handles = (handles w)(x := None), mem = h'\<rparr> \<and>
         shares_resource \<lparr>handles = (handles w)(x := None), mem = h'\<rparr>"
proof
  from inv have old: "\<And>y q. handles w y = Some q \<Longrightarrow> m_counter_ptr q < length (counters (mem w))"
    by (simp add: allocated_def)
  have old': "m_counter_ptr q < length (counters h')" if "handles w y = Some q" for y q
    using old [OF that] len by (rule less_le_trans)
  show "allocated \<lparr>handles = (handles w)(x := None), mem = h'\<rparr>"
    unfolding allocated_def using old' by (auto split: if_splits)
  from inv show "shares_resource \<lparr>handles = (handles w)(x := None), mem = h'\<rparr>"
    unfolding shares_resource_def by (simp split: if_splits) blast
qed

lemma exec_invariant:
  assumes inv: "allocated w \<and> shares_resource w" and ex: "exec s w = Some w'"
  shows "allocated w' \<and> shares_resource w'"
proof (cases s)
  case (Construct x r)
  with ex obtain p h' where c: "SmartPointer_ctor r (mem w) = Some (p, h')"
    and w': "w' = \<lparr>handles = (handles w)(x \<mapsto> p), mem = h'\<rparr>"
    by (auto split: option.splits)
  from ctor_result [OF c] invariant_update [OF inv, of h' p x] show ?thesis
    unfolding w' by simp
next
  case (CopyConstruct x y)
  with ex obtain q p h' where q: "handles w y = Some q"
    and c: "copy_ctor q (mem w) = Some (p, h')"
    and w': "w' = \<lparr>handles = (handles w)(x \<mapsto> p), mem = h'\<rparr>"
    by (auto split: option.splits)
  from copy_ctor_result [OF c] q invariant_update [OF inv, of h' p x] show ?thesis
    unfolding w' by auto
next
  case (CopyAssign x y)
  with ex obtain p q p' h' where p: "handles w x = Some p" and q: "handles w y = Some q"
    and c: "copy_assign p q (mem w) = Some (p', h')"
    and w': "w' = \<lparr>handles = (handles w)(x \<mapsto> p'), mem = h'\<rparr>"
    by (auto split: option.splits)
  from copy_assign_result [OF c] p q have "\<exists>z. handles w z = Some p'"
    by auto
  with copy_assign_result [OF c] invariant_update [OF inv, of h' p' x] show ?thesis
    unfolding w' by simp
next
  case (RawAssign x r)
  with ex obtain p p' h' where c: "raw_assign p r (mem w) = Some (p', h')"
    and w': "w' = \<lparr>handles = (handles w)(x \<mapsto> p'), mem = h'\<rparr>"
    by (auto split: option.splits)
  from raw_assign_result [OF c] invariant_update [OF inv, of h' p' x] show ?thesis
    unfolding w' by simp
next
  case (Destruct x)
  with ex obtain p h' where c: "SmartPointer_dtor p (mem w) = Some h'"
    and w': "w' = \<lparr>handles = (handles w)(x := None), mem = h'\<rparr>"
    by (auto split: option.splits)
  from dtor_result [OF c] invariant_remove [OF inv, of h' x] show ?thesis
    unfolding w' by simp
next
  case (CallDetach x)
  with ex obtain p where p: "handles w x = Some p"
    and w': "w' = \<lparr>handles = (handles w)(x \<mapsto> p), mem = mem w\<rparr>"
    by (auto simp: Detach_def split: option.splits)
  from p invariant_update [OF inv, of "mem w" p x] show ?thesis
    unfolding w' by auto
qed

lemma run_invariant:
  "allocated w \<and> shares_resource w \<Longrightarrow> run ss w = Some w' \<Longrightarrow>
   allocated w' \<and> shares_resource w'"
proof (induction ss arbitrary: w)
  case Nil
  then show ?case by simp
next
  case (Cons s ss)
  from Cons.prems(2) obtain w1 where s: "exec s w = Some w1" and ss: "run ss w1 = Some w'"
    by (auto split: option.splits)
  from Cons.IH [OF exec_invariant [OF Cons.prems(1) s] ss] show ?case .
qed

lemma run_shares_resource:
  assumes "run ss empty_world = Some w"
    and "handles w x = Some p" and "handles w y = Some q"
    and "m_counter_ptr p = m_counter_ptr q"
  shows "resource p = resource q"
proof -
  have "allocated empty_world \<and> shares_resource empty_world"
    by (simp add: allocated_def shares_resource_def empty_world_def)
  from run_invariant [OF this assms(1)] assms(2-4) show ?thesis
    unfolding shares_resource_def by blast
qed

section \<open>The counter\<close>

text \<open>
  C7, as the code has it. The counter is an \<open>unsigned int\<close>, so it is never negative:
  decrementing a counter that holds 0 wraps around to \<open>2^32 - 1\<close>, and any other
  counter goes down by one. Incrementing adds one, except at \<open>2^32 - 1\<close>, where it
  wraps around to 0.
\<close>

theorem PtrCounter_inc_dec_wrap:
  "unat (get (op_dec k)) = (if get k = 0 then 2 ^ 32 - 1 else unat (get k) - 1) \<and>
   unat (get (op_inc k)) = (if unat (get k) = 2 ^ 32 - 1 then 0 else unat (get k) + 1)"
  by (simp add: get_def op_dec_def op_inc_def u32_unat_dec u32_unat_inc)

text \<open>
  C7 as the specification words it does not hold: the decrement of a fresh counter, read
  through \<open>get\<close>, is 4294967295 and not \<open>-1\<close>, and the increment of that value is 0,
  not 4294967296.
\<close>

theorem PtrCounter_dec_zero_not_negative:
  "uint (get (op_dec PtrCounter_ctor)) = 4294967295 \<and>
   \<not> uint (get (op_dec PtrCounter_ctor)) < 0 \<and>
   uint (get (op_dec PtrCounter_ctor)) \<noteq> - 1 \<and>
   uint (get (op_inc \<lparr>m_counter = 4294967295\<rparr>)) = 0 \<and>
   uint (get (op_inc \<lparr>m_counter = 4294967295\<rparr>)) \<noteq> 4294967295 + 1"
  by (simp add: get_def op_dec_def op_inc_def PtrCounter_ctor_def u32_uint_minus_one)

section \<open>Construction\<close>

text \<open>
  C5. For every pointer \<open>r\<close>, null or not, and every heap, the constructor succeeds. The
  handle stores \<open>r\<close>. Its counter is a new object: the address held no counter before,
  and no handle made earlier can hold it, the address being beyond every address handed
  out so far. The counter reads 1 when \<open>r\<close> is not null and 0 when it is: a handle made
  with no resource reports a reference count of 0 and a null pointer. No other counter
  changes and nothing is deleted.
\<close>

theorem SmartPointer_ctor_fresh_counter:
  "\<exists>p h'. SmartPointer_ctor r h = Some (p, h') \<and>
     GetPointer p = r \<and>
     counter_at h (m_counter_ptr p) = None \<and>
     (\<forall>q :: SmartPointer.
        m_counter_ptr q < length (counters h) \<longrightarrow> m_counter_ptr q \<noteq> m_counter_ptr p) \<and>
     GetReferenceCount p h' = Some (if r = None then 0 else 1) \<and>
     (\<forall>c. c \<noteq> m_counter_ptr p \<longrightarrow> counter_at h' c = counter_at h c) \<and>
     freed h' = freed h"
  by (auto simp: SmartPointer_ctor_def heap_simps get_def op_inc_def PtrCounter_ctor_def
      split: option.splits)

theorem SmartPointer_ctor_fresh_counter_witness:
  "m_counter_ptr \<lparr>resource = Some 5, m_counter_ptr = 0\<rparr>
     < length (counters \<lparr>counters = [Some \<lparr>m_counter = 1\<rparr>], freed = []\<rparr>) \<and>
   (\<exists>p h'. SmartPointer_ctor None \<lparr>counters = [Some \<lparr>m_counter = 1\<rparr>], freed = []\<rparr>
              = Some (p, h') \<and>
      GetPointer p = None \<and> GetReferenceCount p h' = Some 0 \<and>
      m_counter_ptr \<lparr>resource = Some 5, m_counter_ptr = 0\<rparr> \<noteq> m_counter_ptr p \<and>
      counter_at h' 0 = Some \<lparr>m_counter = 1\<rparr>)"
proof -
  let ?h = "\<lparr>counters = [Some \<lparr>m_counter = 1\<rparr>], freed = []\<rparr>"
  let ?q = "\<lparr>resource = Some 5, m_counter_ptr = 0\<rparr>"
  have old: "m_counter_ptr ?q < length (counters ?h)"
    by simp
  obtain p h' where ctor: "SmartPointer_ctor None ?h = Some (p, h')"
    and ptr: "GetPointer p = None"
    and fresh: "\<forall>q :: SmartPointer.
                  m_counter_ptr q < length (counters ?h) \<longrightarrow> m_counter_ptr q \<noteq> m_counter_ptr p"
    and cnt: "GetReferenceCount p h' = Some (if (None :: addr option) = None then 0 else 1)"
    and frame: "\<forall>c. c \<noteq> m_counter_ptr p \<longrightarrow> counter_at h' c = counter_at ?h c"
    using SmartPointer_ctor_fresh_counter [of None ?h] by blast
  from fresh old have ne: "m_counter_ptr ?q \<noteq> m_counter_ptr p"
    by blast
  then have "0 \<noteq> m_counter_ptr p"
    by simp
  with frame have "counter_at h' 0 = counter_at ?h 0"
    by blast
  then have "counter_at h' 0 = Some \<lparr>m_counter = 1\<rparr>"
    by (simp add: counter_at_def)
  with old ctor ptr cnt ne show ?thesis
    by auto
qed

section \<open>Destruction\<close>

text \<open>
  C2. The destructor of a handle whose counter is a live object succeeds and decrements
  that counter once. The count after the decrement is zero exactly when the count before
  it is 1. In that case the counter object is deleted and the resource is deleted (a
  null resource leaves nothing to delete). In every other case the counter stays, holding
  the count before minus one (modulo \<open>2^32\<close>), and nothing is deleted. No other counter
  changes.
\<close>

theorem SmartPointer_dtor_releases_on_zero:
  assumes "counter_at h (m_counter_ptr this) = Some k"
  shows "\<exists>h'. SmartPointer_dtor this h = Some h' \<and>
     (if m_counter k = 1
      then counter_at h' (m_counter_ptr this) = None \<and>
           freed h' = freed h @ (case resource this of None \<Rightarrow> [] | Some a \<Rightarrow> [a])
      else counter_at h' (m_counter_ptr this) = Some \<lparr>m_counter = m_counter k - 1\<rparr> \<and>
           freed h' = freed h) \<and>
     (\<forall>c. c \<noteq> m_counter_ptr this \<longrightarrow> counter_at h' c = counter_at h c) \<and>
     length (counters h') = length (counters h)"
  using assms counter_at_live_less [OF assms]
  by (auto simp: SmartPointer_dtor_def heap_simps get_def op_dec_def split: option.splits)

text \<open>
  Two handles on a heap of two counters: the sole owner of resource 7 (count 1) and one
  of two owners of resource 8 (count 2). Destroying the first deletes its counter and
  the resource and leaves the other counter alone. Destroying the second leaves its
  counter with the count 1 and deletes nothing.
\<close>

theorem SmartPointer_dtor_releases_on_zero_witness:
  "counter_at \<lparr>counters = [Some \<lparr>m_counter = 2\<rparr>, Some \<lparr>m_counter = 1\<rparr>], freed = []\<rparr>
     (m_counter_ptr \<lparr>resource = Some 7, m_counter_ptr = 1\<rparr>) = Some \<lparr>m_counter = 1\<rparr> \<and>
   (\<exists>h'. SmartPointer_dtor \<lparr>resource = Some 7, m_counter_ptr = 1\<rparr>
            \<lparr>counters = [Some \<lparr>m_counter = 2\<rparr>, Some \<lparr>m_counter = 1\<rparr>], freed = []\<rparr>
          = Some h' \<and>
      counter_at h' 1 = None \<and> freed h' = [7] \<and>
      counter_at h' 0 = Some \<lparr>m_counter = 2\<rparr>) \<and>
   counter_at \<lparr>counters = [Some \<lparr>m_counter = 2\<rparr>, Some \<lparr>m_counter = 1\<rparr>], freed = []\<rparr>
     (m_counter_ptr \<lparr>resource = Some 8, m_counter_ptr = 0\<rparr>) = Some \<lparr>m_counter = 2\<rparr> \<and>
   (\<exists>h'. SmartPointer_dtor \<lparr>resource = Some 8, m_counter_ptr = 0\<rparr>
            \<lparr>counters = [Some \<lparr>m_counter = 2\<rparr>, Some \<lparr>m_counter = 1\<rparr>], freed = []\<rparr>
          = Some h' \<and>
      counter_at h' 0 = Some \<lparr>m_counter = 1\<rparr> \<and> freed h' = [] \<and>
      counter_at h' 1 = Some \<lparr>m_counter = 1\<rparr>)"
proof -
  let ?h = "\<lparr>counters = [Some \<lparr>m_counter = 2\<rparr>, Some \<lparr>m_counter = 1\<rparr>], freed = []\<rparr>"
  let ?p = "\<lparr>resource = Some 7, m_counter_ptr = 1\<rparr>"
  let ?q = "\<lparr>resource = Some 8, m_counter_ptr = 0\<rparr>"
  have p: "counter_at ?h (m_counter_ptr ?p) = Some \<lparr>m_counter = 1\<rparr>"
    and q: "counter_at ?h (m_counter_ptr ?q) = Some \<lparr>m_counter = 2\<rparr>"
    by (simp_all add: counter_at_def)
  from SmartPointer_dtor_releases_on_zero [OF p]
  obtain h' where dtor: "SmartPointer_dtor ?p ?h = Some h'"
    and gone: "counter_at h' 1 = None" and log: "freed h' = [7]"
    and frame: "\<forall>c. c \<noteq> m_counter_ptr ?p \<longrightarrow> counter_at h' c = counter_at ?h c"
    by auto
  from frame q have "counter_at h' 0 = Some \<lparr>m_counter = 2\<rparr>"
    by simp
  with dtor gone log have sole:
    "\<exists>h'. SmartPointer_dtor ?p ?h = Some h' \<and> counter_at h' 1 = None \<and> freed h' = [7] \<and>
          counter_at h' 0 = Some \<lparr>m_counter = 2\<rparr>"
    by blast
  from SmartPointer_dtor_releases_on_zero [OF q]
  obtain h'' where dtor': "SmartPointer_dtor ?q ?h = Some h''"
    and stays: "counter_at h'' 0 = Some \<lparr>m_counter = 1\<rparr>" and log': "freed h'' = []"
    and frame': "\<forall>c. c \<noteq> m_counter_ptr ?q \<longrightarrow> counter_at h'' c = counter_at ?h c"
    by auto
  from frame' p have "counter_at h'' 1 = Some \<lparr>m_counter = 1\<rparr>"
    by simp
  with dtor' stays log' have shared:
    "\<exists>h'. SmartPointer_dtor ?q ?h = Some h' \<and> counter_at h' 0 = Some \<lparr>m_counter = 1\<rparr> \<and>
          freed h' = [] \<and> counter_at h' 1 = Some \<lparr>m_counter = 1\<rparr>"
    by blast
  from p q sole shared show ?thesis
    by blast
qed

text \<open>
  C9. When the counter of the handle holds 0, the destructor decrements it to
  \<open>2^32 - 1\<close>. The zero test that follows fails, so the counter object stays allocated
  with that count and nothing is deleted. A handle built with a null resource is in this
  state from its construction on.
\<close>

theorem SmartPointer_dtor_zero_counter_wraps:
  assumes "counter_at h (m_counter_ptr this) = Some k" and "get k = 0"
  shows "\<exists>h'. SmartPointer_dtor this h = Some h' \<and>
     GetReferenceCount this h' = Some (2 ^ 32 - 1) \<and>
     counter_at h' (m_counter_ptr this) = Some (op_dec k) \<and>
     get (op_dec k) \<noteq> 0 \<and>
     length (counters h') = length (counters h) \<and>
     freed h' = freed h"
  using assms counter_at_live_less [OF assms(1)]
  by (auto simp: SmartPointer_dtor_def heap_simps get_def op_dec_def u32_unat_minus_one
      split: option.splits)

text \<open>The default-constructed handle of an empty heap, destroyed at once.\<close>

theorem SmartPointer_dtor_zero_counter_wraps_witness:
  "SmartPointer_ctor None empty_heap =
     Some (\<lparr>resource = None, m_counter_ptr = 0\<rparr>,
           \<lparr>counters = [Some \<lparr>m_counter = 0\<rparr>], freed = []\<rparr>) \<and>
   get \<lparr>m_counter = 0\<rparr> = 0 \<and>
   (\<exists>h'. SmartPointer_dtor \<lparr>resource = None, m_counter_ptr = 0\<rparr>
            \<lparr>counters = [Some \<lparr>m_counter = 0\<rparr>], freed = []\<rparr> = Some h' \<and>
      GetReferenceCount \<lparr>resource = None, m_counter_ptr = 0\<rparr> h' = Some 4294967295 \<and>
      length (counters h') = 1 \<and> freed h' = [])"
proof -
  let ?h = "\<lparr>counters = [Some \<lparr>m_counter = 0\<rparr>], freed = []\<rparr>"
  let ?p = "\<lparr>resource = None, m_counter_ptr = 0\<rparr>"
  have ctor: "SmartPointer_ctor None empty_heap = Some (?p, ?h)"
    by (simp add: SmartPointer_ctor_def new_PtrCounter_def empty_heap_def PtrCounter_ctor_def)
  have live: "counter_at ?h (m_counter_ptr ?p) = Some \<lparr>m_counter = 0\<rparr>"
    by (simp add: counter_at_def)
  have zero: "get \<lparr>m_counter = 0\<rparr> = 0"
    by (simp add: get_def)
  from SmartPointer_dtor_zero_counter_wraps [OF live zero] ctor zero show ?thesis
    by auto
qed

section \<open>Copy assignment\<close>

text \<open>
  C4. When \<open>this\<close> and \<open>other\<close> hold the same resource pointer and the same counter
  pointer, copy assignment returns at the guard: the handle and the whole heap (every
  counter, the log of deletions) are as before, whatever state the counter is in.
  Assigning a handle to itself is the case \<open>other = this\<close>. Doing it again changes
  nothing either.
\<close>

theorem copy_assign_alias_noop:
  assumes "resource this = resource other"
    and "m_counter_ptr this = m_counter_ptr other"
  shows "copy_assign this other h = Some (this, h) \<and>
         copy_assign this this h = Some (this, h) \<and>
         (\<exists>this' h'. copy_assign this other h = Some (this', h') \<and>
                     copy_assign this' other h' = Some (this, h))"
  using assms by (simp add: copy_assign_def)

theorem copy_assign_alias_noop_witness:
  "resource \<lparr>resource = Some 7, m_counter_ptr = 0\<rparr>
     = resource \<lparr>resource = Some 7, m_counter_ptr = 0\<rparr> \<and>
   m_counter_ptr \<lparr>resource = Some 7, m_counter_ptr = 0\<rparr>
     = m_counter_ptr \<lparr>resource = Some 7, m_counter_ptr = 0\<rparr> \<and>
   copy_assign \<lparr>resource = Some 7, m_counter_ptr = 0\<rparr> \<lparr>resource = Some 7, m_counter_ptr = 0\<rparr>
     \<lparr>counters = [Some \<lparr>m_counter = 1\<rparr>], freed = []\<rparr>
   = Some (\<lparr>resource = Some 7, m_counter_ptr = 0\<rparr>,
           \<lparr>counters = [Some \<lparr>m_counter = 1\<rparr>], freed = []\<rparr>)"
  using copy_assign_alias_noop
    [of "\<lparr>resource = Some 7, m_counter_ptr = 0\<rparr>" "\<lparr>resource = Some 7, m_counter_ptr = 0\<rparr>"
        "\<lparr>counters = [Some \<lparr>m_counter = 1\<rparr>], freed = []\<rparr>"]
  by simp

text \<open>
  One assignment between handles with different, live counters: what it does to each
  counter and to the log of deletions.
\<close>

lemma copy_assign_step:
  assumes "counter_at h (m_counter_ptr this) = Some k"
    and "counter_at h (m_counter_ptr other) = Some k'"
    and "m_counter_ptr this \<noteq> m_counter_ptr other"
  shows "\<exists>h'. copy_assign this other h = Some (other, h') \<and>
     counter_at h' (m_counter_ptr this) =
       (if get (op_dec k) = 0 then None else Some (op_dec k)) \<and>
     freed h' = freed h @
       (if get (op_dec k) = 0
        then (case resource this of None \<Rightarrow> [] | Some a \<Rightarrow> [a]) else []) \<and>
     counter_at h' (m_counter_ptr other) =
       Some (if resource other \<noteq> None then op_inc k' else k') \<and>
     (\<forall>c. c \<noteq> m_counter_ptr this \<and> c \<noteq> m_counter_ptr other \<longrightarrow>
          counter_at h' c = counter_at h c) \<and>
     length (counters h') = length (counters h)"
  using assms counter_at_live_less [OF assms(1)] counter_at_live_less [OF assms(2)]
  by (auto simp: copy_assign_def heap_simps split: option.splits)

text \<open>
  The same step with the counts written out: the counter of \<open>this\<close> goes from its
  count to that count minus one, and is deleted with the resource exactly when the count
  was 1; the counter of \<open>other\<close> gains one exactly when \<open>other\<close> has a resource.
\<close>

lemma copy_assign_step_count:
  assumes "counter_at h (m_counter_ptr this) = Some k"
    and "counter_at h (m_counter_ptr other) = Some k'"
    and "m_counter_ptr this \<noteq> m_counter_ptr other"
  shows "\<exists>h'. copy_assign this other h = Some (other, h') \<and>
     counter_at h' (m_counter_ptr this) =
       (if m_counter k = 1 then None else Some \<lparr>m_counter = m_counter k - 1\<rparr>) \<and>
     freed h' = freed h @
       (if m_counter k = 1
        then (case resource this of None \<Rightarrow> [] | Some a \<Rightarrow> [a]) else []) \<and>
     counter_at h' (m_counter_ptr other) =
       Some \<lparr>m_counter = m_counter k' + (if resource other = None then 0 else 1)\<rparr> \<and>
     (\<forall>c. c \<noteq> m_counter_ptr this \<and> c \<noteq> m_counter_ptr other \<longrightarrow>
          counter_at h' c = counter_at h c)"
  using assms counter_at_live_less [OF assms(1)] counter_at_live_less [OF assms(2)]
  by (auto simp: copy_assign_def heap_simps get_def op_dec_def op_inc_def split: option.splits)

text \<open>
  The guard compares both fields. When the counters are the same and the resources are
  not, the assignment goes on past it: with a count other than 1 the counter is
  decremented, the fields of \<open>other\<close> are adopted, and the same counter is incremented
  when \<open>other\<close> has a resource.
\<close>

lemma copy_assign_same_counter:
  assumes "counter_at h (m_counter_ptr this) = Some k"
    and "m_counter_ptr this = m_counter_ptr other"
    and "resource this \<noteq> resource other"
    and "m_counter k \<noteq> 1"
  shows "\<exists>h'. copy_assign this other h = Some (other, h') \<and>
     counter_at h' (m_counter_ptr other) =
       Some \<lparr>m_counter = m_counter k - 1 + (if resource other = None then 0 else 1)\<rparr> \<and>
     freed h' = freed h \<and>
     (\<forall>c. c \<noteq> m_counter_ptr other \<longrightarrow> counter_at h' c = counter_at h c)"
  using assms counter_at_live_less [OF assms(1)]
  by (auto simp: copy_assign_def heap_simps get_def op_dec_def op_inc_def split: option.splits)

text \<open>
  The case left over: the same counter, different resources, and the count 1. The
  decrement reaches zero and deletes the counter, which is the one the assignment then
  adopts; with a resource in \<open>other\<close> it increments the deleted object. No program
  gets here (\<open>run_shares_resource\<close>).
\<close>

lemma copy_assign_same_counter_released:
  assumes "counter_at h (m_counter_ptr this) = Some k"
    and "m_counter_ptr this = m_counter_ptr other"
    and "resource this \<noteq> resource other"
    and "m_counter k = 1" and "resource other \<noteq> None"
  shows "copy_assign this other h = None"
  using assms counter_at_live_less [OF assms(1)]
  by (auto simp: copy_assign_def heap_simps get_def op_dec_def op_inc_def split: option.splits)

text \<open>\<open>h3 = h2 = h1\<close>, that is \<open>h3 = (h2 = h1)\<close>, with three different live counters.\<close>

lemma copy_assign_chained:
  assumes r: "resource h1 = Some r"
    and k1: "counter_at h (m_counter_ptr h1) = Some k1" and one: "m_counter k1 = 1"
    and k2: "counter_at h (m_counter_ptr h2) = Some k2"
    and k3: "counter_at h (m_counter_ptr h3) = Some k3"
    and ne: "m_counter_ptr h2 \<noteq> m_counter_ptr h1" "m_counter_ptr h3 \<noteq> m_counter_ptr h1"
      "m_counter_ptr h3 \<noteq> m_counter_ptr h2"
  shows "\<exists>h2' ha h3' hb.
     copy_assign h2 h1 h = Some (h2', ha) \<and> copy_assign h3 h2' ha = Some (h3', hb) \<and>
     GetPointer h2' = Some r \<and> GetPointer h3' = Some r \<and>
     m_counter_ptr h2' = m_counter_ptr h1 \<and> m_counter_ptr h3' = m_counter_ptr h1 \<and>
     counter_at hb (m_counter_ptr h1) = Some \<lparr>m_counter = 3\<rparr> \<and>
     GetReferenceCount h1 hb = Some 3 \<and> GetReferenceCount h2' hb = Some 3 \<and>
     GetReferenceCount h3' hb = Some 3"
proof -
  from copy_assign_step_count [OF k2 k1 ne(1)] r one
  obtain ha where a: "copy_assign h2 h1 h = Some (h1, ha)"
    and a1: "counter_at ha (m_counter_ptr h1) = Some \<lparr>m_counter = 2\<rparr>"
    and a3: "\<forall>c. c \<noteq> m_counter_ptr h2 \<and> c \<noteq> m_counter_ptr h1 \<longrightarrow>
                 counter_at ha c = counter_at h c"
    by auto
  from a3 ne k3 have k3': "counter_at ha (m_counter_ptr h3) = Some k3"
    by simp
  from copy_assign_step_count [OF k3' a1 ne(2)] r
  obtain hb where b: "copy_assign h3 h1 ha = Some (h1, hb)"
    and b1: "counter_at hb (m_counter_ptr h1) = Some \<lparr>m_counter = 3\<rparr>"
    by auto
  from b1 have "GetReferenceCount h1 hb = Some 3"
    by (simp add: GetReferenceCount_def counter_get_def get_def)
  with a b b1 r show ?thesis
    by (simp add: GetPointer_def)
qed

text \<open>
  \<open>x = y\<close> in a world that a program has reached. Handles of a program that do not alias
  the identical pair hold different counters, so the step above applies.
\<close>

lemma copy_assign_in_program:
  assumes run: "run ss empty_world = Some w"
    and p: "handles w x = Some p" and q: "handles w y = Some q"
    and ne: "\<not> (resource p = resource q \<and> m_counter_ptr p = m_counter_ptr q)"
    and k: "counter_at (mem w) (m_counter_ptr p) = Some k"
    and k': "counter_at (mem w) (m_counter_ptr q) = Some k'"
  shows "\<exists>w' p'. exec (CopyAssign x y) w = Some w' \<and>
     handles w' x = Some p' \<and> handles w' y = Some q \<and>
     (\<forall>z. z \<noteq> x \<longrightarrow> handles w' z = handles w z) \<and>
     resource p' = resource q \<and> m_counter_ptr p' = m_counter_ptr q \<and>
     counter_at (mem w') (m_counter_ptr p) =
       (if m_counter k = 1 then None else Some \<lparr>m_counter = m_counter k - 1\<rparr>) \<and>
     freed (mem w') = freed (mem w) @
       (if m_counter k = 1
        then (case resource p of None \<Rightarrow> [] | Some a \<Rightarrow> [a]) else []) \<and>
     counter_at (mem w') (m_counter_ptr q) =
       Some \<lparr>m_counter = m_counter k' + (if resource q = None then 0 else 1)\<rparr> \<and>
     (\<forall>c. c \<noteq> m_counter_ptr p \<and> c \<noteq> m_counter_ptr q \<longrightarrow>
          counter_at (mem w') c = counter_at (mem w) c)"
proof -
  from run_shares_resource [OF run p q] ne
  have diff: "m_counter_ptr p \<noteq> m_counter_ptr q"
    by blast
  with p q have xy: "x \<noteq> y"
    by auto
  from copy_assign_step_count [OF k k' diff]
  obtain h' where step: "copy_assign p q (mem w) = Some (q, h')"
    "counter_at h' (m_counter_ptr p) =
       (if m_counter k = 1 then None else Some \<lparr>m_counter = m_counter k - 1\<rparr>)"
    "freed h' = freed (mem w) @
       (if m_counter k = 1
        then (case resource p of None \<Rightarrow> [] | Some a \<Rightarrow> [a]) else [])"
    "counter_at h' (m_counter_ptr q) =
       Some \<lparr>m_counter = m_counter k' + (if resource q = None then 0 else 1)\<rparr>"
    "\<forall>c. c \<noteq> m_counter_ptr p \<and> c \<noteq> m_counter_ptr q \<longrightarrow>
         counter_at h' c = counter_at (mem w) c"
    by blast
  from p q step(1)
  have "exec (CopyAssign x y) w = Some \<lparr>handles = (handles w)(x \<mapsto> q), mem = h'\<rparr>"
    by simp
  with step q xy show ?thesis
    by simp
qed

text \<open>
  C3. Copy assignment \<open>this = other\<close> between handles that do not alias the identical
  (resource, counter) pair, both counters being live objects. Four statements.

  \<^item> The counters differ. The assignment succeeds. The counter of \<open>this\<close> is
    decremented; when its count was 1, so that the decrement reached zero, the counter is
    deleted and the resource of \<open>this\<close> is deleted; otherwise it stays with its count
    minus one and nothing is deleted. The handle returned has the resource and the
    counter of \<open>other\<close>. The counter of \<open>other\<close> gains one when the adopted resource is
    not null and keeps its count when it is null. No other counter changes.
  \<^item> The counters are the same and the resources differ, with a count other than 1. The
    assignment does not return at the guard: it decrements, adopts the fields of
    \<open>other\<close>, and increments when the adopted resource is not null.
  \<^item> In every world reached by a program from the empty world, for every two live
    handles \<open>x\<close> and \<open>y\<close> that do not alias the identical pair, \<open>x = y\<close> does what the
    first statement says, and every other variable keeps its handle.
  \<^item> For a sole owner \<open>h1\<close> of a non-null resource (count 1) and handles \<open>h2\<close>,
    \<open>h3\<close>, the three counters different, \<open>h3 = h2 = h1\<close> leaves the three handles with
    the resource and the counter of \<open>h1\<close>, and the count is 3.
\<close>

theorem copy_assign_adopts:
  "(\<forall>this other h k k'.
      m_counter_ptr this \<noteq> m_counter_ptr other \<and>
      counter_at h (m_counter_ptr this) = Some k \<and>
      counter_at h (m_counter_ptr other) = Some k' \<longrightarrow>
      (\<exists>this' h'. copy_assign this other h = Some (this', h') \<and>
         counter_at h' (m_counter_ptr this) =
           (if m_counter k = 1 then None else Some \<lparr>m_counter = m_counter k - 1\<rparr>) \<and>
         freed h' = freed h @
           (if m_counter k = 1
            then (case resource this of None \<Rightarrow> [] | Some a \<Rightarrow> [a]) else []) \<and>
         resource this' = resource other \<and> m_counter_ptr this' = m_counter_ptr other \<and>
         counter_at h' (m_counter_ptr this') =
           Some \<lparr>m_counter = m_counter k' + (if resource this' = None then 0 else 1)\<rparr> \<and>
         (\<forall>c. c \<noteq> m_counter_ptr this \<and> c \<noteq> m_counter_ptr other \<longrightarrow>
              counter_at h' c = counter_at h c))) \<and>
   (\<forall>this other h k.
      m_counter_ptr this = m_counter_ptr other \<and> resource this \<noteq> resource other \<and>
      counter_at h (m_counter_ptr this) = Some k \<and> m_counter k \<noteq> 1 \<longrightarrow>
      (\<exists>this' h'. copy_assign this other h = Some (this', h') \<and>
         freed h' = freed h \<and>
         resource this' = resource other \<and> m_counter_ptr this' = m_counter_ptr other \<and>
         counter_at h' (m_counter_ptr this') =
           Some \<lparr>m_counter = m_counter k - 1 + (if resource this' = None then 0 else 1)\<rparr> \<and>
         (\<forall>c. c \<noteq> m_counter_ptr other \<longrightarrow> counter_at h' c = counter_at h c))) \<and>
   (\<forall>ss w x y p q k k'.
      run ss empty_world = Some w \<and> handles w x = Some p \<and> handles w y = Some q \<and>
      \<not> (resource p = resource q \<and> m_counter_ptr p = m_counter_ptr q) \<and>
      counter_at (mem w) (m_counter_ptr p) = Some k \<and>
      counter_at (mem w) (m_counter_ptr q) = Some k' \<longrightarrow>
      (\<exists>w' p'. exec (CopyAssign x y) w = Some w' \<and>
         handles w' x = Some p' \<and> handles w' y = Some q \<and>
         (\<forall>z. z \<noteq> x \<longrightarrow> handles w' z = handles w z) \<and>
         resource p' = resource q \<and> m_counter_ptr p' = m_counter_ptr q \<and>
         counter_at (mem w') (m_counter_ptr p) =
           (if m_counter k = 1 then None else Some \<lparr>m_counter = m_counter k - 1\<rparr>) \<and>
         freed (mem w') = freed (mem w) @
           (if m_counter k = 1
            then (case resource p of None \<Rightarrow> [] | Some a \<Rightarrow> [a]) else []) \<and>
         counter_at (mem w') (m_counter_ptr q) =
           Some \<lparr>m_counter = m_counter k' + (if resource q = None then 0 else 1)\<rparr> \<and>
         (\<forall>c. c \<noteq> m_counter_ptr p \<and> c \<noteq> m_counter_ptr q \<longrightarrow>
              counter_at (mem w') c = counter_at (mem w) c))) \<and>
   (\<forall>h1 h2 h3 h r k1 k2 k3.
      resource h1 = Some r \<and> counter_at h (m_counter_ptr h1) = Some k1 \<and>
      m_counter k1 = 1 \<and>
      counter_at h (m_counter_ptr h2) = Some k2 \<and>
      counter_at h (m_counter_ptr h3) = Some k3 \<and>
      m_counter_ptr h2 \<noteq> m_counter_ptr h1 \<and> m_counter_ptr h3 \<noteq> m_counter_ptr h1 \<and>
      m_counter_ptr h3 \<noteq> m_counter_ptr h2 \<longrightarrow>
      (\<exists>h2' ha h3' hb.
         copy_assign h2 h1 h = Some (h2', ha) \<and> copy_assign h3 h2' ha = Some (h3', hb) \<and>
         GetPointer h2' = Some r \<and> GetPointer h3' = Some r \<and>
         m_counter_ptr h2' = m_counter_ptr h1 \<and> m_counter_ptr h3' = m_counter_ptr h1 \<and>
         counter_at hb (m_counter_ptr h1) = Some \<lparr>m_counter = 3\<rparr> \<and>
         GetReferenceCount h1 hb = Some 3 \<and> GetReferenceCount h2' hb = Some 3 \<and>
         GetReferenceCount h3' hb = Some 3))"
proof (intro conjI allI impI)
  fix this other :: SmartPointer and h k k'
  assume "m_counter_ptr this \<noteq> m_counter_ptr other \<and>
      counter_at h (m_counter_ptr this) = Some k \<and>
      counter_at h (m_counter_ptr other) = Some k'"
  then have ne: "m_counter_ptr this \<noteq> m_counter_ptr other"
    and k: "counter_at h (m_counter_ptr this) = Some k"
    and k': "counter_at h (m_counter_ptr other) = Some k'"
    by simp_all
  have "\<exists>h'. copy_assign this other h = Some (other, h') \<and>
     counter_at h' (m_counter_ptr this) =
       (if m_counter k = 1 then None else Some \<lparr>m_counter = m_counter k - 1\<rparr>) \<and>
     freed h' = freed h @
       (if m_counter k = 1
        then (case resource this of None \<Rightarrow> [] | Some a \<Rightarrow> [a]) else []) \<and>
     counter_at h' (m_counter_ptr other) =
       Some \<lparr>m_counter = m_counter k' + (if resource other = None then 0 else 1)\<rparr> \<and>
     (\<forall>c. c \<noteq> m_counter_ptr this \<and> c \<noteq> m_counter_ptr other \<longrightarrow>
          counter_at h' c = counter_at h c)"
    using ne k k' counter_at_live_less [OF k] counter_at_live_less [OF k']
    by (auto simp: copy_assign_def heap_simps get_def op_dec_def op_inc_def
        split: option.splits)
  then show "\<exists>this' h'. copy_assign this other h = Some (this', h') \<and>
         counter_at h' (m_counter_ptr this) =
           (if m_counter k = 1 then None else Some \<lparr>m_counter = m_counter k - 1\<rparr>) \<and>
         freed h' = freed h @
           (if m_counter k = 1
            then (case resource this of None \<Rightarrow> [] | Some a \<Rightarrow> [a]) else []) \<and>
         resource this' = resource other \<and> m_counter_ptr this' = m_counter_ptr other \<and>
         counter_at h' (m_counter_ptr this') =
           Some \<lparr>m_counter = m_counter k' + (if resource this' = None then 0 else 1)\<rparr> \<and>
         (\<forall>c. c \<noteq> m_counter_ptr this \<and> c \<noteq> m_counter_ptr other \<longrightarrow>
              counter_at h' c = counter_at h c)"
    by fastforce
next
  fix this other :: SmartPointer and h k
  assume "m_counter_ptr this = m_counter_ptr other \<and> resource this \<noteq> resource other \<and>
      counter_at h (m_counter_ptr this) = Some k \<and> m_counter k \<noteq> 1"
  then have eq: "m_counter_ptr this = m_counter_ptr other"
    and res: "resource this \<noteq> resource other"
    and k: "counter_at h (m_counter_ptr this) = Some k" and cnt: "m_counter k \<noteq> 1"
    by blast+
  have "\<exists>h'. copy_assign this other h = Some (other, h') \<and>
     counter_at h' (m_counter_ptr other) =
       Some \<lparr>m_counter = m_counter k - 1 + (if resource other = None then 0 else 1)\<rparr> \<and>
     freed h' = freed h \<and>
     (\<forall>c. c \<noteq> m_counter_ptr other \<longrightarrow> counter_at h' c = counter_at h c)"
    using eq res k cnt counter_at_live_less [OF k]
    by (auto simp: copy_assign_def heap_simps get_def op_dec_def op_inc_def
        split: option.splits)
  then show "\<exists>this' h'. copy_assign this other h = Some (this', h') \<and>
         freed h' = freed h \<and>
         resource this' = resource other \<and> m_counter_ptr this' = m_counter_ptr other \<and>
         counter_at h' (m_counter_ptr this') =
           Some \<lparr>m_counter = m_counter k - 1 + (if resource this' = None then 0 else 1)\<rparr> \<and>
         (\<forall>c. c \<noteq> m_counter_ptr other \<longrightarrow> counter_at h' c = counter_at h c)"
    by fastforce
next
  fix ss w x y and p q :: SmartPointer and k k'
  assume "run ss empty_world = Some w \<and> handles w x = Some p \<and> handles w y = Some q \<and>
      \<not> (resource p = resource q \<and> m_counter_ptr p = m_counter_ptr q) \<and>
      counter_at (mem w) (m_counter_ptr p) = Some k \<and>
      counter_at (mem w) (m_counter_ptr q) = Some k'"
  then show "\<exists>w' p'. exec (CopyAssign x y) w = Some w' \<and>
         handles w' x = Some p' \<and> handles w' y = Some q \<and>
         (\<forall>z. z \<noteq> x \<longrightarrow> handles w' z = handles w z) \<and>
         resource p' = resource q \<and> m_counter_ptr p' = m_counter_ptr q \<and>
         counter_at (mem w') (m_counter_ptr p) =
           (if m_counter k = 1 then None else Some \<lparr>m_counter = m_counter k - 1\<rparr>) \<and>
         freed (mem w') = freed (mem w) @
           (if m_counter k = 1
            then (case resource p of None \<Rightarrow> [] | Some a \<Rightarrow> [a]) else []) \<and>
         counter_at (mem w') (m_counter_ptr q) =
           Some \<lparr>m_counter = m_counter k' + (if resource q = None then 0 else 1)\<rparr> \<and>
         (\<forall>c. c \<noteq> m_counter_ptr p \<and> c \<noteq> m_counter_ptr q \<longrightarrow>
              counter_at (mem w') c = counter_at (mem w) c)"
    using copy_assign_in_program [of ss w x p y q k k'] by blast
next
  fix h1 h2 h3 :: SmartPointer and h r k1 k2 k3
  assume "resource h1 = Some r \<and> counter_at h (m_counter_ptr h1) = Some k1 \<and>
      m_counter k1 = 1 \<and>
      counter_at h (m_counter_ptr h2) = Some k2 \<and>
      counter_at h (m_counter_ptr h3) = Some k3 \<and>
      m_counter_ptr h2 \<noteq> m_counter_ptr h1 \<and> m_counter_ptr h3 \<noteq> m_counter_ptr h1 \<and>
      m_counter_ptr h3 \<noteq> m_counter_ptr h2"
  then show "\<exists>h2' ha h3' hb.
         copy_assign h2 h1 h = Some (h2', ha) \<and> copy_assign h3 h2' ha = Some (h3', hb) \<and>
         GetPointer h2' = Some r \<and> GetPointer h3' = Some r \<and>
         m_counter_ptr h2' = m_counter_ptr h1 \<and> m_counter_ptr h3' = m_counter_ptr h1 \<and>
         counter_at hb (m_counter_ptr h1) = Some \<lparr>m_counter = 3\<rparr> \<and>
         GetReferenceCount h1 hb = Some 3 \<and> GetReferenceCount h2' hb = Some 3 \<and>
         GetReferenceCount h3' hb = Some 3"
    using copy_assign_chained [of h1 r h k1 h2 k2 h3 k3] by blast
qed

text \<open>
  \<open>h1\<close> is the sole owner of resource 7, \<open>h2\<close> the sole owner of resource 8, \<open>h3\<close>
  holds no resource. \<open>h2 = h1\<close> deletes resource 8 and its counter and raises the count
  of resource 7 to 2. A handle that shares resource 8 at count 2 and is assigned a handle
  without a resource leaves the count 1 behind, deletes nothing and increments nothing.
  Two handles on one counter of count 2 with different resources are assigned past the
  guard. The program \<open>SmartPointer h1(7); SmartPointer h2(8);\<close> followed by \<open>h2 = h1\<close>.
  \<open>h3 = h2 = h1\<close> ends with the count 3.
\<close>

theorem copy_assign_adopts_witness:
  "counter_at
     \<lparr>counters = [Some \<lparr>m_counter = 1\<rparr>, Some \<lparr>m_counter = 1\<rparr>, Some \<lparr>m_counter = 0\<rparr>],
      freed = []\<rparr> 0 = Some \<lparr>m_counter = 1\<rparr> \<and>
   counter_at
     \<lparr>counters = [Some \<lparr>m_counter = 1\<rparr>, Some \<lparr>m_counter = 1\<rparr>, Some \<lparr>m_counter = 0\<rparr>],
      freed = []\<rparr> 1 = Some \<lparr>m_counter = 1\<rparr> \<and>
   counter_at
     \<lparr>counters = [Some \<lparr>m_counter = 1\<rparr>, Some \<lparr>m_counter = 1\<rparr>, Some \<lparr>m_counter = 0\<rparr>],
      freed = []\<rparr> 2 = Some \<lparr>m_counter = 0\<rparr> \<and>
   (\<exists>this' h'.
      copy_assign \<lparr>resource = Some 8, m_counter_ptr = 1\<rparr> \<lparr>resource = Some 7, m_counter_ptr = 0\<rparr>
        \<lparr>counters = [Some \<lparr>m_counter = 1\<rparr>, Some \<lparr>m_counter = 1\<rparr>, Some \<lparr>m_counter = 0\<rparr>],
         freed = []\<rparr> = Some (this', h') \<and>
      counter_at h' 1 = None \<and> freed h' = [8] \<and>
      resource this' = Some 7 \<and> m_counter_ptr this' = 0 \<and>
      counter_at h' (m_counter_ptr this') = Some \<lparr>m_counter = 2\<rparr>) \<and>
   (\<exists>this' h'.
      copy_assign \<lparr>resource = Some 8, m_counter_ptr = 1\<rparr> \<lparr>resource = None, m_counter_ptr = 0\<rparr>
        \<lparr>counters = [Some \<lparr>m_counter = 0\<rparr>, Some \<lparr>m_counter = 2\<rparr>], freed = []\<rparr>
        = Some (this', h') \<and>
      counter_at h' 1 = Some \<lparr>m_counter = 1\<rparr> \<and> freed h' = [] \<and>
      resource this' = None \<and> m_counter_ptr this' = 0 \<and>
      counter_at h' (m_counter_ptr this') = Some \<lparr>m_counter = 0\<rparr>) \<and>
   (\<exists>this' h'.
      copy_assign \<lparr>resource = Some 8, m_counter_ptr = 0\<rparr> \<lparr>resource = Some 7, m_counter_ptr = 0\<rparr>
        \<lparr>counters = [Some \<lparr>m_counter = 2\<rparr>], freed = []\<rparr> = Some (this', h') \<and>
      freed h' = [] \<and> resource this' = Some 7 \<and> m_counter_ptr this' = 0 \<and>
      counter_at h' (m_counter_ptr this') = Some \<lparr>m_counter = 2\<rparr>) \<and>
   run [Construct 0 (Some 7), Construct 1 (Some 8)] empty_world =
     Some \<lparr>handles = (\<lambda>x. None)(0 \<mapsto> \<lparr>resource = Some 7, m_counter_ptr = 0\<rparr>,
                                    1 \<mapsto> \<lparr>resource = Some 8, m_counter_ptr = 1\<rparr>),
           mem = \<lparr>counters = [Some \<lparr>m_counter = 1\<rparr>, Some \<lparr>m_counter = 1\<rparr>], freed = []\<rparr>\<rparr> \<and>
   (\<exists>w' p'.
      exec (CopyAssign 1 0)
        \<lparr>handles = (\<lambda>x. None)(0 \<mapsto> \<lparr>resource = Some 7, m_counter_ptr = 0\<rparr>,
                                 1 \<mapsto> \<lparr>resource = Some 8, m_counter_ptr = 1\<rparr>),
         mem = \<lparr>counters = [Some \<lparr>m_counter = 1\<rparr>, Some \<lparr>m_counter = 1\<rparr>], freed = []\<rparr>\<rparr>
        = Some w' \<and>
      handles w' 1 = Some p' \<and> resource p' = Some 7 \<and> m_counter_ptr p' = 0 \<and>
      handles w' 0 = Some \<lparr>resource = Some 7, m_counter_ptr = 0\<rparr> \<and>
      counter_at (mem w') 1 = None \<and> freed (mem w') = [8] \<and>
      counter_at (mem w') 0 = Some \<lparr>m_counter = 2\<rparr>) \<and>
   (\<exists>h2' ha h3' hb.
      copy_assign \<lparr>resource = Some 8, m_counter_ptr = 1\<rparr> \<lparr>resource = Some 7, m_counter_ptr = 0\<rparr>
        \<lparr>counters = [Some \<lparr>m_counter = 1\<rparr>, Some \<lparr>m_counter = 1\<rparr>, Some \<lparr>m_counter = 0\<rparr>],
         freed = []\<rparr> = Some (h2', ha) \<and>
      copy_assign \<lparr>resource = None, m_counter_ptr = 2\<rparr> h2' ha = Some (h3', hb) \<and>
      GetPointer h2' = Some 7 \<and> GetPointer h3' = Some 7 \<and>
      counter_at hb 0 = Some \<lparr>m_counter = 3\<rparr> \<and>
      GetReferenceCount \<lparr>resource = Some 7, m_counter_ptr = 0\<rparr> hb = Some 3 \<and>
      GetReferenceCount h2' hb = Some 3 \<and> GetReferenceCount h3' hb = Some 3)"
proof -
  let ?h = "\<lparr>counters = [Some \<lparr>m_counter = 1\<rparr>, Some \<lparr>m_counter = 1\<rparr>, Some \<lparr>m_counter = 0\<rparr>],
             freed = []\<rparr>"
  let ?g = "\<lparr>counters = [Some \<lparr>m_counter = 0\<rparr>, Some \<lparr>m_counter = 2\<rparr>], freed = []\<rparr>"
  let ?s = "\<lparr>counters = [Some \<lparr>m_counter = 2\<rparr>], freed = []\<rparr>"
  let ?m = "\<lparr>counters = [Some \<lparr>m_counter = 1\<rparr>, Some \<lparr>m_counter = 1\<rparr>], freed = []\<rparr>"
  let ?h1 = "\<lparr>resource = Some 7, m_counter_ptr = 0\<rparr>"
  let ?h2 = "\<lparr>resource = Some 8, m_counter_ptr = 1\<rparr>"
  let ?h3 = "\<lparr>resource = None, m_counter_ptr = 2\<rparr>"
  let ?n = "\<lparr>resource = None, m_counter_ptr = 0\<rparr>"
  let ?t = "\<lparr>resource = Some 8, m_counter_ptr = 0\<rparr>"
  let ?w = "\<lparr>handles = (\<lambda>x. None)(0 \<mapsto> ?h1, 1 \<mapsto> ?h2), mem = ?m\<rparr>"
  have k1: "counter_at ?h 0 = Some \<lparr>m_counter = 1\<rparr>"
    and k2: "counter_at ?h 1 = Some \<lparr>m_counter = 1\<rparr>"
    and k3: "counter_at ?h 2 = Some \<lparr>m_counter = 0\<rparr>"
    by (simp_all add: counter_at_def)
  have g0: "counter_at ?g 0 = Some \<lparr>m_counter = 0\<rparr>"
    and g1: "counter_at ?g 1 = Some \<lparr>m_counter = 2\<rparr>"
    and s0: "counter_at ?s 0 = Some \<lparr>m_counter = 2\<rparr>"
    by (simp_all add: counter_at_def)
  have release: "\<exists>this' h'. copy_assign ?h2 ?h1 ?h = Some (this', h') \<and>
      counter_at h' 1 = None \<and> freed h' = [8] \<and>
      resource this' = Some 7 \<and> m_counter_ptr this' = 0 \<and>
      counter_at h' (m_counter_ptr this') = Some \<lparr>m_counter = 2\<rparr>"
    using copy_assign_adopts
      [THEN conjunct1, rule_format, of ?h2 ?h1 ?h "\<lparr>m_counter = 1\<rparr>" "\<lparr>m_counter = 1\<rparr>"]
      k1 k2
    by auto
  have keep: "\<exists>this' h'. copy_assign ?h2 ?n ?g = Some (this', h') \<and>
      counter_at h' 1 = Some \<lparr>m_counter = 1\<rparr> \<and> freed h' = [] \<and>
      resource this' = None \<and> m_counter_ptr this' = 0 \<and>
      counter_at h' (m_counter_ptr this') = Some \<lparr>m_counter = 0\<rparr>"
    using copy_assign_adopts
      [THEN conjunct1, rule_format, of ?h2 ?n ?g "\<lparr>m_counter = 2\<rparr>" "\<lparr>m_counter = 0\<rparr>"]
      g0 g1
    by auto
  have same: "\<exists>this' h'. copy_assign ?t ?h1 ?s = Some (this', h') \<and>
      freed h' = [] \<and> resource this' = Some 7 \<and> m_counter_ptr this' = 0 \<and>
      counter_at h' (m_counter_ptr this') = Some \<lparr>m_counter = 2\<rparr>"
    using copy_assign_adopts
      [THEN conjunct2, THEN conjunct1, rule_format, of ?t ?h1 ?s "\<lparr>m_counter = 2\<rparr>"]
      s0
    by auto
  have prog: "run [Construct 0 (Some 7), Construct 1 (Some 8)] empty_world = Some ?w"
    by (simp add: empty_world_def empty_heap_def SmartPointer_ctor_def new_PtrCounter_def
        PtrCounter_ctor_def counter_inc_def counter_at_def op_inc_def fun_upd_twist)
  have m0: "counter_at ?m 0 = Some \<lparr>m_counter = 1\<rparr>"
    and m1: "counter_at ?m 1 = Some \<lparr>m_counter = 1\<rparr>"
    by (simp_all add: counter_at_def)
  have inprog: "\<exists>w' p'. exec (CopyAssign 1 0) ?w = Some w' \<and>
      handles w' 1 = Some p' \<and> resource p' = Some 7 \<and> m_counter_ptr p' = 0 \<and>
      handles w' 0 = Some ?h1 \<and>
      counter_at (mem w') 1 = None \<and> freed (mem w') = [8] \<and>
      counter_at (mem w') 0 = Some \<lparr>m_counter = 2\<rparr>"
    using copy_assign_adopts
      [THEN conjunct2, THEN conjunct2, THEN conjunct1, rule_format,
        of "[Construct 0 (Some 7), Construct 1 (Some 8)]" ?w 1 ?h2 0 ?h1
           "\<lparr>m_counter = 1\<rparr>" "\<lparr>m_counter = 1\<rparr>"]
      prog m0 m1
    by auto
  have chain: "\<exists>h2' ha h3' hb.
      copy_assign ?h2 ?h1 ?h = Some (h2', ha) \<and> copy_assign ?h3 h2' ha = Some (h3', hb) \<and>
      GetPointer h2' = Some 7 \<and> GetPointer h3' = Some 7 \<and>
      counter_at hb 0 = Some \<lparr>m_counter = 3\<rparr> \<and>
      GetReferenceCount ?h1 hb = Some 3 \<and>
      GetReferenceCount h2' hb = Some 3 \<and> GetReferenceCount h3' hb = Some 3"
    using copy_assign_adopts
      [THEN conjunct2, THEN conjunct2, THEN conjunct2, rule_format,
        of ?h1 7 ?h "\<lparr>m_counter = 1\<rparr>" ?h2 "\<lparr>m_counter = 1\<rparr>" ?h3 "\<lparr>m_counter = 0\<rparr>"]
      k1 k2 k3
    by auto
  from k1 k2 k3 release keep same prog inprog chain show ?thesis
    by simp
qed

text \<open>
  C10. Two handles that both hold a null resource but different counters, each counter
  live and holding 0. The resource pointers are equal and the counter pointers are not,
  so the guard does not return. The counter of \<open>this\<close> is decremented to \<open>2^32 - 1\<close> and
  stays allocated; nothing is deleted. The handle returned has the counter of \<open>other\<close>,
  which was not incremented: both handles now hold one counter, and it reads 0.
\<close>

theorem copy_assign_null_handles:
  assumes "resource this = None" and "resource other = None"
    and "m_counter_ptr this \<noteq> m_counter_ptr other"
    and "counter_at h (m_counter_ptr this) = Some k" and "get k = 0"
    and "counter_at h (m_counter_ptr other) = Some k'" and "get k' = 0"
  shows "\<exists>this' h'. copy_assign this other h = Some (this', h') \<and>
     (this', h') \<noteq> (this, h) \<and>
     GetReferenceCount this h' = Some (2 ^ 32 - 1) \<and>
     freed h' = freed h \<and>
     resource this' = None \<and> m_counter_ptr this' = m_counter_ptr other \<and>
     counter_at h' (m_counter_ptr other) = Some k' \<and>
     GetReferenceCount this' h' = Some 0 \<and> GetReferenceCount other h' = Some 0"
proof -
  from assms(5) have wrap: "get (op_dec k) \<noteq> 0" "unat (get (op_dec k)) = 2 ^ 32 - 1"
    by (simp_all add: get_def op_dec_def u32_unat_minus_one)
  from copy_assign_step [OF assms(4) assms(6) assms(3)] wrap assms(1,2)
  obtain h' where a: "copy_assign this other h = Some (other, h')"
    and b: "counter_at h' (m_counter_ptr this) = Some (op_dec k)"
    and c: "freed h' = freed h"
    and d: "counter_at h' (m_counter_ptr other) = Some k'"
    by auto
  from assms(3) have "other \<noteq> this"
    by auto
  with a b c d wrap assms(2,7) show ?thesis
    by (simp add: GetReferenceCount_def counter_get_def)
qed

text \<open>\<open>b = a\<close> on the heap that \<open>SmartPointer a; SmartPointer b;\<close> leaves.\<close>

theorem copy_assign_null_handles_witness:
  "resource \<lparr>resource = None, m_counter_ptr = 1\<rparr> = None \<and>
   resource \<lparr>resource = None, m_counter_ptr = 0\<rparr> = None \<and>
   m_counter_ptr \<lparr>resource = None, m_counter_ptr = 1\<rparr>
     \<noteq> m_counter_ptr \<lparr>resource = None, m_counter_ptr = 0\<rparr> \<and>
   counter_at \<lparr>counters = [Some \<lparr>m_counter = 0\<rparr>, Some \<lparr>m_counter = 0\<rparr>], freed = []\<rparr> 1
     = Some \<lparr>m_counter = 0\<rparr> \<and>
   counter_at \<lparr>counters = [Some \<lparr>m_counter = 0\<rparr>, Some \<lparr>m_counter = 0\<rparr>], freed = []\<rparr> 0
     = Some \<lparr>m_counter = 0\<rparr> \<and>
   get \<lparr>m_counter = 0\<rparr> = 0 \<and>
   (\<exists>this' h'.
      copy_assign \<lparr>resource = None, m_counter_ptr = 1\<rparr> \<lparr>resource = None, m_counter_ptr = 0\<rparr>
        \<lparr>counters = [Some \<lparr>m_counter = 0\<rparr>, Some \<lparr>m_counter = 0\<rparr>], freed = []\<rparr>
        = Some (this', h') \<and>
      GetReferenceCount \<lparr>resource = None, m_counter_ptr = 1\<rparr> h' = Some 4294967295 \<and>
      m_counter_ptr this' = 0 \<and>
      GetReferenceCount this' h' = Some 0 \<and>
      GetReferenceCount \<lparr>resource = None, m_counter_ptr = 0\<rparr> h' = Some 0)"
proof -
  let ?h = "\<lparr>counters = [Some \<lparr>m_counter = 0\<rparr>, Some \<lparr>m_counter = 0\<rparr>], freed = []\<rparr>"
  let ?a = "\<lparr>resource = None, m_counter_ptr = 0\<rparr>"
  let ?b = "\<lparr>resource = None, m_counter_ptr = 1\<rparr>"
  have ka: "counter_at ?h (m_counter_ptr ?a) = Some \<lparr>m_counter = 0\<rparr>"
    and kb: "counter_at ?h (m_counter_ptr ?b) = Some \<lparr>m_counter = 0\<rparr>"
    by (simp_all add: counter_at_def)
  have zero: "get \<lparr>m_counter = 0\<rparr> = 0"
    by (simp add: get_def)
  have ne: "m_counter_ptr ?b \<noteq> m_counter_ptr ?a"
    by simp
  from copy_assign_null_handles [OF _ _ ne kb zero ka zero] ka kb zero show ?thesis
    by auto
qed

section \<open>Assignment of a raw pointer\<close>




section \<open>Copy construction\<close>

text \<open>
  Copying a handle whose counter is a live object: the new handle has both fields of
  \<open>other\<close>, and the counter is incremented whether or not there is a resource.
\<close>

lemma copy_ctor_step:
  assumes "counter_at h (m_counter_ptr other) = Some k"
  shows "\<exists>h'. copy_ctor other h = Some (other, h') \<and>
     counter_at h' (m_counter_ptr other) = Some (op_inc k) \<and>
     freed h' = freed h \<and>
     (\<forall>c. c \<noteq> m_counter_ptr other \<longrightarrow> counter_at h' c = counter_at h c)"
  using assms counter_at_live_less [OF assms]
  by (auto simp: copy_ctor_def heap_simps)

text \<open>
  C1 asks that the count of a counter be the number of live handles that hold it, and 0
  for handles without a resource; in particular that copying a handle without a resource
  keep the count at 0. The copy constructor increments without looking at the resource,
  unlike the constructor and both assignments. For \<open>SmartPointer a; SmartPointer b(a);\<close>
  on the empty heap: \<open>a\<close> is built with the count 0; after the copy two handles hold the
  counter and it reads 1. Destroying \<open>b\<close> then brings the count to 0 and deletes the
  counter while \<open>a\<close> still holds it, and the destructor of \<open>a\<close> decrements a deleted
  object.
\<close>

theorem copy_ctor_null_handle_counts_one:
  "SmartPointer_ctor None empty_heap =
     Some (\<lparr>resource = None, m_counter_ptr = 0\<rparr>,
           \<lparr>counters = [Some \<lparr>m_counter = 0\<rparr>], freed = []\<rparr>) \<and>
   GetReferenceCount \<lparr>resource = None, m_counter_ptr = 0\<rparr>
     \<lparr>counters = [Some \<lparr>m_counter = 0\<rparr>], freed = []\<rparr> = Some 0 \<and>
   copy_ctor \<lparr>resource = None, m_counter_ptr = 0\<rparr>
       \<lparr>counters = [Some \<lparr>m_counter = 0\<rparr>], freed = []\<rparr> =
     Some (\<lparr>resource = None, m_counter_ptr = 0\<rparr>,
           \<lparr>counters = [Some \<lparr>m_counter = 1\<rparr>], freed = []\<rparr>) \<and>
   GetReferenceCount \<lparr>resource = None, m_counter_ptr = 0\<rparr>
     \<lparr>counters = [Some \<lparr>m_counter = 1\<rparr>], freed = []\<rparr> = Some 1 \<and>
   SmartPointer_dtor \<lparr>resource = None, m_counter_ptr = 0\<rparr>
       \<lparr>counters = [Some \<lparr>m_counter = 1\<rparr>], freed = []\<rparr> =
     Some \<lparr>counters = [None], freed = []\<rparr> \<and>
   SmartPointer_dtor \<lparr>resource = None, m_counter_ptr = 0\<rparr>
       \<lparr>counters = [None], freed = []\<rparr> = None"
  by (simp add: SmartPointer_ctor_def copy_ctor_def SmartPointer_dtor_def empty_heap_def
      PtrCounter_ctor_def get_def op_inc_def op_dec_def heap_simps)

section \<open>Detach\<close>

text \<open>
  C8. \<open>Detach\<close> does nothing, for every handle and every heap, also when the counter of
  the handle is no live object: the handle keeps its resource pointer and its counter
  pointer, and the heap is the same, so every counter has the value it had and nothing
  has been deleted.
\<close>

theorem Detach_noop:
  "resource (fst (Detach this h)) = resource this \<and>
   m_counter_ptr (fst (Detach this h)) = m_counter_ptr this \<and>
   snd (Detach this h) = h \<and>
   GetReferenceCount (fst (Detach this h)) (snd (Detach this h)) = GetReferenceCount this h \<and>
   counters (snd (Detach this h)) = counters h \<and>
   freed (snd (Detach this h)) = freed h"
  by (simp add: Detach_def)

end
